theory Spec2Isabelle
  imports Complex_Main "HOL-Library.Sublist"
begin

section \<open>Python values and exceptions\<close>

text \<open>
  Exceptions are values: every \<open>raise\<close> and every failing \<open>assert\<close> of the source is
  an \<open>Inl\<close> result carrying the exception class and its message.
  \<open>TorchError\<close> stands for whatever a tensor operation or the attention kernel raises
  (both belong to external libraries).
\<close>

datatype error =
    ValueError string
  | AssertionError string
  | NotImplementedError string
  | ZeroDivisionError
  | TorchError

text \<open>Python's \<open>sep.join(xs)\<close> on strings.\<close>

fun join :: "string \<Rightarrow> string list \<Rightarrow> string" where
  "join sep [] = []"
| "join sep [x] = x"
| "join sep (x # y # ys) = x @ sep @ join sep (y # ys)"

text \<open>Python's \<open>str\<close> on an integer (decimal digits, a leading minus sign).\<close>

definition digit_char :: "nat \<Rightarrow> char" where
  "digit_char d = ''0123456789'' ! d"

function str_nat :: "nat \<Rightarrow> string" where
  "str_nat n = (if n < 10 then [digit_char n] else str_nat (n div 10) @ [digit_char (n mod 10)])"
  by pat_completeness auto
termination
  by (relation "measure id") auto

declare str_nat.simps [simp del]

definition str_int :: "int \<Rightarrow> string" where
  "str_int i = (if i < 0 then CHR ''-'' # str_nat (nat (- i)) else str_nat (nat i))"

text \<open>
  Python's \<open>%\<close> on integers: \<open>ZeroDivisionError\<close> on a zero divisor, otherwise the
  remainder with the sign of the divisor, which is \<open>mod\<close> on \<open>int\<close>.
\<close>

definition py_mod :: "int \<Rightarrow> int \<Rightarrow> error + int" where
  "py_mod a b = (if b = 0 then Inl ZeroDivisionError else Inr (a mod b))"

text \<open>Python's \<open>str\<close> on a list of integers: \<open>[32, 64]\<close>.\<close>

definition str_int_list :: "int list \<Rightarrow> string" where
  "str_int_list xs = ''['' @ join '', '' (map str_int xs) @ '']''"

section \<open>selector.py: the backend enumeration\<close>

datatype Backend =
    FLASH_ATTN
  | XFORMERS
  | ROCM_FLASH
  | TORCH_SDPA
  | OPENVINO
  | FLASHINFER
  | PALLAS
  | IPEX

text \<open>The \<open>name\<close> attribute of an enumeration member.\<close>

fun Backend_name :: "Backend \<Rightarrow> string" where
  "Backend_name FLASH_ATTN = ''FLASH_ATTN''"
| "Backend_name XFORMERS = ''XFORMERS''"
| "Backend_name ROCM_FLASH = ''ROCM_FLASH''"
| "Backend_name TORCH_SDPA = ''TORCH_SDPA''"
| "Backend_name OPENVINO = ''OPENVINO''"
| "Backend_name FLASHINFER = ''FLASHINFER''"
| "Backend_name PALLAS = ''PALLAS''"
| "Backend_name IPEX = ''IPEX''"

text \<open>
  \<open>_Backend.__members__\<close>: the ordered mapping from member names to members, in
  definition order.
\<close>

definition backend_members :: "(string \<times> Backend) list" where
  "backend_members =
     [(''FLASH_ATTN'', FLASH_ATTN), (''XFORMERS'', XFORMERS), (''ROCM_FLASH'', ROCM_FLASH),
      (''TORCH_SDPA'', TORCH_SDPA), (''OPENVINO'', OPENVINO), (''FLASHINFER'', FLASHINFER),
      (''PALLAS'', PALLAS), (''IPEX'', IPEX)]"

definition invalid_backend_message :: "string \<Rightarrow> string" where
  "invalid_backend_message backend_name =
     ''Invalid attention backend '' @ [CHR 0x27] @ backend_name @ [CHR 0x27] @ ''. ''
     @ ''Available backends: '' @ join '', '' (map fst backend_members) @ '' ''
     @ ''(case-sensitive).''"

text \<open>
  \<open>_Backend.backend_name_to_enum\<close>. The argument is a \<open>str\<close>, so the leading
  \<open>assert backend_name is not None\<close> holds.
\<close>

definition backend_name_to_enum :: "string \<Rightarrow> error + Backend" where
  "backend_name_to_enum backend_name =
     (if backend_name \<notin> set (map fst backend_members)
      then Inl (ValueError (invalid_backend_message backend_name))
      else (case map_of backend_members backend_name of
              Some b \<Rightarrow> Inr b
            | None \<Rightarrow> Inl (ValueError (invalid_backend_message backend_name))))"

section \<open>selector.py: choosing the backend\<close>

text \<open>
  \<open>torch.dtype\<close>: the two members the selector names, with the other members of the
  library kept apart by their names.
\<close>

datatype dtype = float16 | bfloat16 | float32 | float64 | other_dtype string

text \<open>
  \<open>AttnBackend.which_attn_to_use\<close>. The two reads of the environment are parameters:
  \<open>VLLM_ATTENTION_BACKEND\<close> is the value of \<open>envs.VLLM_ATTENTION_BACKEND\<close>
  (\<open>None\<close> when unset) and \<open>device_capability\<close> is the pair returned by
  \<open>current_platform.get_device_capability()\<close>.
\<close>

definition which_attn_to_use ::
  "string option \<Rightarrow> int \<times> int \<Rightarrow> int \<Rightarrow> int \<Rightarrow> int \<Rightarrow> int option \<Rightarrow> dtype \<Rightarrow> error + Backend"
where
  "which_attn_to_use VLLM_ATTENTION_BACKEND device_capability
       num_heads head_size num_kv_heads sliding_window dt =
     (case (case VLLM_ATTENTION_BACKEND of
              None \<Rightarrow> Inr FLASH_ATTN
            | Some backend_by_env_var \<Rightarrow> backend_name_to_enum backend_by_env_var) of
        Inl e \<Rightarrow> Inl e
      | Inr selected_backend \<Rightarrow>
          if selected_backend = FLASH_ATTN then
            (if fst device_capability < 8 then Inr XFORMERS
             else if dt \<notin> {float16, bfloat16} then Inr XFORMERS
             else if sliding_window \<noteq> None then Inr XFORMERS
             else Inr selected_backend)
          else Inr selected_backend)"

section \<open>selector.py: resolving the backend class\<close>

text \<open>
  What \<open>engine.engine_config.model_config\<close> answers to the five reads of
  \<open>from_engine\<close>.
\<close>

record model_config =
  get_num_attention_heads :: int
  get_head_size :: int
  get_num_kv_heads :: int
  get_sliding_window :: "int option"
  config_dtype :: dtype

text \<open>The backend classes \<open>from_engine\<close> can return.\<close>

datatype backend_class = EncodeOnlyFlashAttentionBackend | EncodeOnlyTorchSDPABackend

text \<open>
  \<open>AttnBackend.from_engine\<close>. A Python function that reaches its end without a
  \<open>return\<close> returns \<open>None\<close>: the result is \<open>Inr None\<close> there, \<open>Inr (Some c)\<close>
  where a class is returned. The two lazy imports are taken to succeed.
\<close>

definition from_engine :: "string option \<Rightarrow> int \<times> int \<Rightarrow> model_config \<Rightarrow> error + backend_class option"
where
  "from_engine VLLM_ATTENTION_BACKEND device_capability mc =
     (case which_attn_to_use VLLM_ATTENTION_BACKEND device_capability
             (get_num_attention_heads mc) (get_head_size mc) (get_num_kv_heads mc)
             (get_sliding_window mc) (config_dtype mc) of
        Inl e \<Rightarrow> Inl e
      | Inr backend \<Rightarrow>
          if backend = FLASH_ATTN then Inr (Some EncodeOnlyFlashAttentionBackend)
          else if backend = XFORMERS then Inr None
          else if backend = TORCH_SDPA then Inr (Some EncodeOnlyTorchSDPABackend)
          else Inl (ValueError ''Invalid attention backend.''))"

section \<open>flash_attn.py: the backend descriptor\<close>

definition get_supported_head_sizes :: "int list" where
  "get_supported_head_sizes = [32, 64, 96, 128, 160, 192, 224, 256]"

definition get_name :: string where
  "get_name = ''flash_attn''"

section \<open>flash_attn.py: constructing the implementation\<close>

text \<open>
  A Python \<open>float\<close>: a finite value, an infinity or not-a-number. Only comparison with
  a constant is needed here, so a finite float is the real number it denotes.
  \<open>py_float_eq\<close> is Python's \<open>==\<close> on floats: not-a-number equals nothing.
\<close>

datatype pyfloat = Finite real | PosInf | NegInf | NaN

definition py_float_eq :: "pyfloat \<Rightarrow> pyfloat \<Rightarrow> bool" where
  "py_float_eq a b = (a \<noteq> NaN \<and> b \<noteq> NaN \<and> a = b)"

text \<open>
  The soft cap is either the \<open>int\<close> the constructor puts in place of \<open>None\<close> or the
  \<open>float\<close> the caller gave.
\<close>

datatype pynum = PyInt int | PyFloat pyfloat

text \<open>\<open>torch.tensor(alibi_slopes, dtype=torch.float32)\<close>, kept as the list it was built from.\<close>

datatype alibi_tensor = Float32Tensor "pyfloat list"

text \<open>The attributes \<open>__init__\<close> sets on \<open>self\<close>.\<close>

record impl =
  self_num_heads :: int
  self_head_size :: int
  self_scale :: pyfloat
  self_num_kv_heads :: int
  self_alibi_slopes :: "alibi_tensor option"
  self_sliding_window :: "int \<times> int"
  self_logits_soft_cap :: pynum
  self_num_queries_per_kv :: int

definition head_size_message :: "int \<Rightarrow> string" where
  "head_size_message head_size =
     ''Head size '' @ str_int head_size @ '' is not supported by FlashAttention. ''
     @ ''Supported head sizes are: '' @ str_int_list get_supported_head_sizes @ ''.''"

text \<open>
  \<open>EncodeOnlyFlashAttentionImpl.__init__\<close>, in the order of the source: the
  block-sparse check, the attributes, the assertion on the head counts (whose \<open>%\<close>
  raises \<open>ZeroDivisionError\<close> on a zero divisor; the assertion has no message), the
  sliding-window check, the head-size check. \<open>//\<close> is reached with a nonzero divisor
  only and rounds towards minus infinity, as \<open>div\<close> on \<open>int\<close> does. The import of
  the kernel is taken to succeed.
\<close>

definition EncodeOnlyFlashAttentionImpl_init ::
  "int \<Rightarrow> int \<Rightarrow> pyfloat \<Rightarrow> int \<Rightarrow> pyfloat list option \<Rightarrow> int option \<Rightarrow> 'b option
     \<Rightarrow> pyfloat option \<Rightarrow> error + impl"
where
  "EncodeOnlyFlashAttentionImpl_init num_heads head_size scale num_kv_heads alibi_slopes
       sliding_window blocksparse_params logits_soft_cap =
     (if blocksparse_params \<noteq> None
      then Inl (ValueError ''FlashAttention does not support block-sparse attention.'')
      else (case py_mod num_heads num_kv_heads of
        Inl e \<Rightarrow> Inl e
      | Inr r \<Rightarrow>
      if r \<noteq> 0 then Inl (AssertionError [])
      else if sliding_window \<noteq> None
      then Inl (ValueError ''Sliding window is not supported in FlashAttention.'')
      else if head_size \<notin> set get_supported_head_sizes
      then Inl (ValueError (head_size_message head_size))
      else Inr \<lparr>
        self_num_heads = num_heads,
        self_head_size = head_size,
        self_scale = scale,
        self_num_kv_heads = num_kv_heads,
        self_alibi_slopes = map_option Float32Tensor alibi_slopes,
        self_sliding_window =
          (case sliding_window of Some w \<Rightarrow> (w, w) | None \<Rightarrow> (- 1, - 1)),
        self_logits_soft_cap =
          (case logits_soft_cap of None \<Rightarrow> PyInt 0 | Some c \<Rightarrow> PyFloat c),
        self_num_queries_per_kv = num_heads div num_kv_heads \<rparr>))"

section \<open>flash_attn.py: the forward pass\<close>

text \<open>
  Modelled from the spec: the declaration of \<open>AttentionType\<close> (in
  \<open>vllm.wde.core.layers.attention.abstract\<close>) is missing; the spec gives the modes as
  ENCODER, DECODER_SELF and CROSS. The source names \<open>AttentionType.ENCODER\<close> only.
\<close>

datatype AttentionType = ENCODER | DECODER_SELF | CROSS

text \<open>
  Modelled from the spec: the declaration of the metadata class (in
  \<open>vllm.wde.encode_only.layers.attention.backends.abstract\<close>) is missing; \<open>forward\<close>
  reads its attributes \<open>seq_start_loc\<close> and \<open>max_seq_len\<close>, the start offsets and the
  maximum length of the spec's SequenceBatchMetadata.
\<close>

record attn_metadata =
  seq_start_loc :: "int list"
  max_seq_len :: int

text \<open>The keyword arguments of one call of \<open>flash_attn_varlen_func\<close>.\<close>

record 't flash_attn_call =
  arg_q :: 't
  arg_k :: 't
  arg_v :: 't
  cu_seqlens_q :: "int list"
  cu_seqlens_k :: "int list"
  max_seqlen_q :: int
  max_seqlen_k :: int
  softmax_scale :: pyfloat
  causal :: bool
  window_size :: "int \<times> int"
  alibi_slopes_arg :: "alibi_tensor option"
  softcap :: pynum

text \<open>
  The tensor library and the kernel are external: \<open>tensor_shape\<close> reads
  \<open>t.shape\<close>, \<open>tensor_view\<close> is \<open>t.view(...)\<close> and \<open>flash_attn_varlen_func\<close> is the
  imported kernel; \<open>None\<close> means that the operation raised.
\<close>

record 't torch_ops =
  tensor_shape :: "'t \<Rightarrow> int list"
  tensor_view :: "'t \<Rightarrow> int list \<Rightarrow> 't option"
  flash_attn_varlen_func :: "'t flash_attn_call \<Rightarrow> 't option"

text \<open>
  \<open>EncodeOnlyFlashAttentionImpl.forward\<close> up to the call of the kernel (lines 115 to
  144): the two checks, the unpacking of \<open>query.shape\<close> into two names (a
  \<open>ValueError\<close> unless the shape has exactly two entries; the tail of its message
  depends on the interpreter's version and is left out), the three reshapes, and the
  arguments handed to the kernel. The result is \<open>num_tokens\<close>, \<open>hidden_size\<close> and
  the kernel call.
\<close>

definition forward_kernel_call ::
  "'t torch_ops \<Rightarrow> impl \<Rightarrow> 't \<Rightarrow> 't \<Rightarrow> 't \<Rightarrow> attn_metadata \<Rightarrow> pyfloat \<Rightarrow> pyfloat
     \<Rightarrow> AttentionType \<Rightarrow> error + (int \<times> int \<times> 't flash_attn_call)"
where
  "forward_kernel_call T self query key val md k_scale v_scale attn_type =
     (if attn_type \<noteq> ENCODER
      then Inl (NotImplementedError
        (''Decoder self-attention and '' @ ''encoder/decoder cross-attention ''
         @ ''are not implemented for '' @ ''EncodeOnlyFlashAttentionImpl''))
      else if \<not> (py_float_eq k_scale (Finite 1) \<and> py_float_eq v_scale (Finite 1))
      then Inl (AssertionError ''key/v_scale is not supported in FlashAttention.'')
      else (case tensor_shape T query of
        [num_tokens, hidden_size] \<Rightarrow>
          (case tensor_view T query [- 1, self_num_heads self, self_head_size self] of
             None \<Rightarrow> Inl TorchError
           | Some q \<Rightarrow>
          (case tensor_view T key [- 1, self_num_kv_heads self, self_head_size self] of
             None \<Rightarrow> Inl TorchError
           | Some k \<Rightarrow>
          (case tensor_view T val [- 1, self_num_kv_heads self, self_head_size self] of
             None \<Rightarrow> Inl TorchError
           | Some v \<Rightarrow>
             Inr (num_tokens, hidden_size, \<lparr>
               arg_q = q, arg_k = k, arg_v = v,
               cu_seqlens_q = seq_start_loc md,
               cu_seqlens_k = seq_start_loc md,
               max_seqlen_q = max_seq_len md,
               max_seqlen_k = max_seq_len md,
               softmax_scale = self_scale self,
               causal = False,
               window_size = self_sliding_window self,
               alibi_slopes_arg = self_alibi_slopes self,
               softcap = self_logits_soft_cap self \<rparr>))))
      | shp \<Rightarrow> Inl (ValueError
          (if length shp < 2 then ''not enough values to unpack''
           else ''too many values to unpack''))))"

text \<open>
  \<open>EncodeOnlyFlashAttentionImpl.forward\<close>: the kernel is called with the arguments
  above and its output is reshaped to \<open>[num_tokens, hidden_size]\<close>.
\<close>

definition forward ::
  "'t torch_ops \<Rightarrow> impl \<Rightarrow> 't \<Rightarrow> 't \<Rightarrow> 't \<Rightarrow> attn_metadata \<Rightarrow> pyfloat \<Rightarrow> pyfloat
     \<Rightarrow> AttentionType \<Rightarrow> error + 't"
where
  "forward T self query key val md k_scale v_scale attn_type =
     (case forward_kernel_call T self query key val md k_scale v_scale attn_type of
        Inl e \<Rightarrow> Inl e
      | Inr (num_tokens, hidden_size, call) \<Rightarrow>
          (case flash_attn_varlen_func T call of
             None \<Rightarrow> Inl TorchError
           | Some attn_output \<Rightarrow>
               (case tensor_view T attn_output [num_tokens, hidden_size] of
                  None \<Rightarrow> Inl TorchError
                | Some out \<Rightarrow> Inr out)))"

text \<open>
  A concrete tensor library for evaluating the model: a tensor is its shape, a view
  with one inferred dimension succeeds when the known dimensions are positive and
  divide the number of elements, a view without one when the number of elements is
  the same, and the kernel returns a tensor shaped like its query.
\<close>

definition numel :: "int list \<Rightarrow> int" where
  "numel shp = prod_list shp"

definition shape_view :: "int list \<Rightarrow> int list \<Rightarrow> int list option" where
  "shape_view shp new =
     (if new \<noteq> [] \<and> hd new = - 1 then
        (let known = prod_list (tl new) in
         if list_all ((\<le>) 0) (tl new) \<and> 0 < known \<and> numel shp mod known = 0
         then Some (numel shp div known # tl new) else None)
      else if list_all ((\<le>) 0) new \<and> numel shp = prod_list new then Some new
      else None)"

definition shape_ops :: "int list torch_ops" where
  "shape_ops = \<lparr> tensor_shape = (\<lambda>t. t), tensor_view = shape_view,
                 flash_attn_varlen_func = (\<lambda>c. Some (arg_q c)) \<rparr>"

section \<open>The sequence metadata builder\<close>

text \<open>
  Modelled from the spec: \<open>EncodeOnlyFlashAttentionMetadataBuilder\<close> has an empty body
  and inherits everything from \<open>EncodeOnlyAttentionMetadataBuilder\<close>, whose module
  (\<open>vllm.wde.encode_only.layers.attention.backends.abstract\<close>) is missing. The spec:
  "Computes prefix-sum offsets starting at 0; maxSeqLen = max of inputs (0 if empty)."
  \<open>offsets_from\<close> runs over the lengths with the offset reached so far.
\<close>

fun offsets_from :: "int \<Rightarrow> int list \<Rightarrow> int list" where
  "offsets_from start [] = [start]"
| "offsets_from start (n # ns) = start # offsets_from (start + n) ns"

definition max_of :: "int list \<Rightarrow> int" where
  "max_of ns = (case ns of [] \<Rightarrow> 0 | n # rest \<Rightarrow> fold max rest n)"

definition build :: "int list \<Rightarrow> attn_metadata" where
  "build sequence_lengths =
     \<lparr> seq_start_loc = offsets_from 0 sequence_lengths,
       max_seq_len = max_of sequence_lengths \<rparr>"

section \<open>Facts about strings and the enumeration\<close>

lemma map_of_backend_members: "map_of backend_members (Backend_name b) = Some b"
  by (cases b) (simp_all add: backend_members_def)

lemma backend_member_names: "map fst backend_members = map Backend_name
    [FLASH_ATTN, XFORMERS, ROCM_FLASH, TORCH_SDPA, OPENVINO, FLASHINFER, PALLAS, IPEX]"
  by (simp add: backend_members_def)

lemma Backend_name_in_members: "Backend_name b \<in> set (map fst backend_members)"
  by (cases b) (simp_all add: backend_members_def)

lemma member_names_are_names:
  "s \<in> set (map fst backend_members) \<longleftrightarrow> (\<exists>b. s = Backend_name b)"
proof
  assume "s \<in> set (map fst backend_members)"
  then show "\<exists>b. s = Backend_name b" unfolding backend_member_names set_map by blast
next
  assume "\<exists>b. s = Backend_name b"
  then show "s \<in> set (map fst backend_members)" using Backend_name_in_members by auto
qed

lemma sublist_join: "x \<in> set xs \<Longrightarrow> sublist x (join sep xs)"
proof (induction sep xs rule: join.induct)
  case (3 sep x' y ys)
  show ?case
  proof (cases "x = x'")
    case True
    then show ?thesis by simp
  next
    case False
    with 3 have "sublist x (join sep (y # ys))" by simp
    then obtain ps ss where "join sep (y # ys) = ps @ x @ ss" by (auto simp: sublist_def)
    then have "join sep (x' # y # ys) = (x' @ sep @ ps) @ x @ ss" by simp
    then show ?thesis unfolding sublist_def by blast
  qed
qed simp_all

lemma sublist_in_append: "sublist x m \<Longrightarrow> sublist x (p @ m @ s)"
proof -
  assume "sublist x m"
  then obtain ps ss where "m = ps @ x @ ss" by (auto simp: sublist_def)
  then have "p @ m @ s = (p @ ps) @ x @ (ss @ s)" by simp
  then show ?thesis unfolding sublist_def by blast
qed

lemma message_lists_backends: "sublist (Backend_name b) (invalid_backend_message s)"
proof -
  have "sublist (Backend_name b) (join '', '' (map fst backend_members))"
    by (rule sublist_join) (rule Backend_name_in_members)
  then have "sublist (Backend_name b)
     ((''Invalid attention backend '' @ [CHR 0x27] @ s @ [CHR 0x27] @ ''. ''
        @ ''Available backends: '')
       @ join '', '' (map fst backend_members) @ ('' '' @ ''(case-sensitive).''))"
    by (rule sublist_in_append)
  then show ?thesis by (simp add: invalid_backend_message_def)
qed

lemma error_text_names_no_backend: "\<not> sublist (Backend_name b) ''Invalid attention backend.''"
  by (cases b) (simp_all add: sublist_code)

lemma head_size_message_names_size: "sublist (str_int head_size) (head_size_message head_size)"
  unfolding head_size_message_def by (rule sublist_appendI)

lemma head_size_message_names_set:
  "sublist (str_int_list get_supported_head_sizes) (head_size_message head_size)"
proof -
  have "sublist (str_int_list get_supported_head_sizes)
     ((''Head size '' @ str_int head_size @ '' is not supported by FlashAttention. ''
        @ ''Supported head sizes are: '')
      @ str_int_list get_supported_head_sizes @ ''.'')"
    by (rule sublist_appendI)
  then show ?thesis by (simp add: head_size_message_def)
qed

lemma py_mod_zero: "py_mod a b = Inr 0 \<longleftrightarrow> b \<noteq> 0 \<and> a mod b = 0"
  by (simp add: py_mod_def)

lemma py_float_eq_one: "py_float_eq x (Finite 1) \<longleftrightarrow> x = Finite 1"
  by (auto simp: py_float_eq_def)

lemma length_offsets_from: "length (offsets_from start ns) = Suc (length ns)"
  by (induction ns arbitrary: start) simp_all

lemma offsets_from_nth:
  "i \<le> length ns \<Longrightarrow> offsets_from start ns ! i = start + sum_list (take i ns)"
proof (induction ns arbitrary: start i)
  case Nil
  then show ?case by simp
next
  case (Cons n ns)
  show ?case
  proof (cases i)
    case 0
    then show ?thesis by simp
  next
    case (Suc j)
    with Cons.prems have "j \<le> length ns" by simp
    then have "offsets_from (start + n) ns ! j = start + n + sum_list (take j ns)"
      by (rule Cons.IH)
    with Suc show ?thesis by simp
  qed
qed

lemma max_of_Max: "ns \<noteq> [] \<Longrightarrow> max_of ns = Max (set ns)"
  by (cases ns) (simp_all add: max_of_def Max.set_eq_fold [symmetric])

section \<open>The name-to-member conversion\<close>

text \<open>
  C10. For every member of the enumeration, \<open>backend_name_to_enum\<close> applied to the
  member's name returns that member. For every string that is not the name of a member
  (names are compared as they are, so case matters) it raises a \<open>ValueError\<close> whose
  message lists the name of every member.
\<close>

theorem backend_name_round_trip:
  "backend_name_to_enum (Backend_name b) = Inr b \<and>
   ((\<forall>m. s \<noteq> Backend_name m) \<longrightarrow>
      backend_name_to_enum s = Inl (ValueError (invalid_backend_message s)) \<and>
      (\<forall>m. sublist (Backend_name m) (invalid_backend_message s)))"
proof (intro conjI impI allI)
  show "backend_name_to_enum (Backend_name b) = Inr b"
    by (simp add: backend_name_to_enum_def Backend_name_in_members map_of_backend_members
             del: set_map)
next
  assume "\<forall>m. s \<noteq> Backend_name m"
  then have "s \<notin> set (map fst backend_members)" using member_names_are_names by blast
  then show "backend_name_to_enum s = Inl (ValueError (invalid_backend_message s))"
    by (simp add: backend_name_to_enum_def del: set_map)
next
  fix m show "sublist (Backend_name m) (invalid_backend_message s)"
    by (rule message_lists_backends)
qed

theorem backend_name_round_trip_witness:
  "backend_name_to_enum ''TORCH_SDPA'' = Inr TORCH_SDPA \<and>
   backend_name_to_enum ''flash_attn'' = Inl (ValueError
     (''Invalid attention backend '' @ [CHR 0x27] @ ''flash_attn'' @ [CHR 0x27] @
      ''. Available backends: FLASH_ATTN, XFORMERS, ROCM_FLASH, TORCH_SDPA, OPENVINO, FLASHINFER, PALLAS, IPEX (case-sensitive).'')) \<and>
   sublist ''PALLAS'' (invalid_backend_message ''flash_attn'')"
proof -
  have n: "\<forall>m. ''flash_attn'' \<noteq> Backend_name m"
  proof
    fix m show "''flash_attn'' \<noteq> Backend_name m" by (cases m) simp_all
  qed
  have msg: "invalid_backend_message ''flash_attn'' =
      ''Invalid attention backend '' @ [CHR 0x27] @ ''flash_attn'' @ [CHR 0x27] @
      ''. Available backends: FLASH_ATTN, XFORMERS, ROCM_FLASH, TORCH_SDPA, OPENVINO, FLASHINFER, PALLAS, IPEX (case-sensitive).''"
    by (simp add: invalid_backend_message_def backend_members_def)
  from backend_name_round_trip [of TORCH_SDPA "''flash_attn''"] n msg
  have "backend_name_to_enum (Backend_name TORCH_SDPA) = Inr TORCH_SDPA"
    and "backend_name_to_enum ''flash_attn'' =
           Inl (ValueError (invalid_backend_message ''flash_attn''))"
    and "sublist (Backend_name PALLAS) (invalid_backend_message ''flash_attn'')"
    by blast+
  with msg show ?thesis by simp
qed

section \<open>The selector\<close>

text \<open>
  C1. With no override in the environment, \<open>which_attn_to_use\<close> returns FLASH_ATTN
  when the major compute version is at least 8, the dtype is float16 or bfloat16 and
  there is no sliding window, and XFORMERS in every other case; the head counts and the
  head size play no part.
\<close>

theorem select_default:
  "which_attn_to_use None device_capability num_heads head_size num_kv_heads sliding_window dt =
     Inr (if 8 \<le> fst device_capability \<and> dt \<in> {float16, bfloat16} \<and> sliding_window = None
          then FLASH_ATTN else XFORMERS)"
  by (simp add: which_attn_to_use_def)

theorem select_default_witness:
  "which_attn_to_use None (8, 0) 8 64 8 None float16 = Inr FLASH_ATTN \<and>
   which_attn_to_use None (7, 5) 8 64 8 None float16 = Inr XFORMERS \<and>
   which_attn_to_use None (8, 0) 8 64 8 None float32 = Inr XFORMERS \<and>
   which_attn_to_use None (8, 0) 8 64 8 (Some 128) bfloat16 = Inr XFORMERS"
  using select_default [of "(8, 0)" 8 64 8 None float16]
        select_default [of "(7, 5)" 8 64 8 None float16]
        select_default [of "(8, 0)" 8 64 8 None float32]
        select_default [of "(8, 0)" 8 64 8 "Some 128" bfloat16]
  by simp

text \<open>
  C2, as stated, fails: the override FLASH_ATTN is a recognised name, and on a device of
  major compute version 7 the selector still downgrades it to XFORMERS, because the
  downgrade rules test the selected backend whatever its origin.
\<close>

theorem select_override_counterexample:
  "backend_name_to_enum ''FLASH_ATTN'' = Inr FLASH_ATTN \<and>
   which_attn_to_use (Some ''FLASH_ATTN'') (7, 5) 8 64 8 None float16 = Inr XFORMERS"
  by (simp add: which_attn_to_use_def backend_name_to_enum_def backend_members_def)

text \<open>
  C2, amended. When the override is the name of a member other than FLASH_ATTN, the
  selector returns that member and no downgrade rule applies. When the override is
  FLASH_ATTN, the three downgrade rules apply as they do without an override: the
  result is XFORMERS if the major compute version is below 8, the dtype is neither
  float16 nor bfloat16, or a sliding window is set, and FLASH_ATTN otherwise.
\<close>

theorem select_override:
  assumes "backend_name_to_enum s = Inr b"
  shows "which_attn_to_use (Some s) device_capability num_heads head_size num_kv_heads
           sliding_window dt =
         Inr (if b = FLASH_ATTN \<and>
                 (fst device_capability < 8 \<or> dt \<notin> {float16, bfloat16} \<or> sliding_window \<noteq> None)
              then XFORMERS else b)"
  using assms by (simp add: which_attn_to_use_def)

theorem select_override_witness:
  "which_attn_to_use (Some ''TORCH_SDPA'') (7, 5) 8 64 8 (Some 128) float32 = Inr TORCH_SDPA \<and>
   which_attn_to_use (Some ''FLASH_ATTN'') (8, 0) 8 64 8 None float16 = Inr FLASH_ATTN \<and>
   which_attn_to_use (Some ''FLASH_ATTN'') (8, 0) 8 64 8 (Some 128) float16 = Inr XFORMERS"
proof -
  have t: "backend_name_to_enum ''TORCH_SDPA'' = Inr TORCH_SDPA"
    and f: "backend_name_to_enum ''FLASH_ATTN'' = Inr FLASH_ATTN"
    by (simp_all add: backend_name_to_enum_def backend_members_def)
  show ?thesis
    using select_override [OF t, of "(7, 5)" 8 64 8 "Some 128" float32]
          select_override [OF f, of "(8, 0)" 8 64 8 None float16]
          select_override [OF f, of "(8, 0)" 8 64 8 "Some 128" float16]
    by simp
qed

section \<open>Resolving the selected backend\<close>

text \<open>
  C3, as stated, fails: ROCM_FLASH is a name the selector returns (through the
  override) and has no registered implementation, yet the error raised for it carries
  the fixed text "Invalid attention backend.", in which the name ROCM_FLASH does not
  occur.
\<close>

theorem resolve_counterexample:
  "which_attn_to_use (Some ''ROCM_FLASH'') (8, 0) 8 64 8 None float16 = Inr ROCM_FLASH \<and>
   from_engine (Some ''ROCM_FLASH'') (8, 0)
     \<lparr> get_num_attention_heads = 8, get_head_size = 64, get_num_kv_heads = 8,
       get_sliding_window = None, config_dtype = float16 \<rparr>
     = Inl (ValueError ''Invalid attention backend.'') \<and>
   \<not> sublist ''ROCM_FLASH'' ''Invalid attention backend.''"
  by (simp add: from_engine_def which_attn_to_use_def backend_name_to_enum_def
        backend_members_def sublist_code)

text \<open>
  C3, amended. For every backend name the selector returns other than XFORMERS,
  \<open>from_engine\<close> returns the backend class when the name is FLASH_ATTN or TORCH_SDPA,
  and otherwise fails with a \<open>ValueError\<close> whose message is the fixed text
  "Invalid attention backend." and does not contain the name of the backend; for these
  names it never returns \<open>None\<close>.
\<close>

theorem resolve_unregistered:
  assumes "which_attn_to_use env cap (get_num_attention_heads mc) (get_head_size mc)
             (get_num_kv_heads mc) (get_sliding_window mc) (config_dtype mc) = Inr b"
      and "b \<noteq> XFORMERS"
  shows "from_engine env cap mc =
           (if b = FLASH_ATTN then Inr (Some EncodeOnlyFlashAttentionBackend)
            else if b = TORCH_SDPA then Inr (Some EncodeOnlyTorchSDPABackend)
            else Inl (ValueError ''Invalid attention backend.'')) \<and>
         from_engine env cap mc \<noteq> Inr None \<and>
         \<not> sublist (Backend_name b) ''Invalid attention backend.''"
  using assms by (simp add: from_engine_def error_text_names_no_backend)

theorem resolve_unregistered_witness:
  "from_engine (Some ''IPEX'') (8, 0)
     \<lparr> get_num_attention_heads = 8, get_head_size = 64, get_num_kv_heads = 8,
       get_sliding_window = None, config_dtype = float16 \<rparr>
     = Inl (ValueError ''Invalid attention backend.'') \<and>
   from_engine None (8, 0)
     \<lparr> get_num_attention_heads = 8, get_head_size = 64, get_num_kv_heads = 8,
       get_sliding_window = None, config_dtype = float16 \<rparr>
     = Inr (Some EncodeOnlyFlashAttentionBackend) \<and>
   \<not> sublist ''IPEX'' ''Invalid attention backend.''"
proof -
  let ?mc = "\<lparr> get_num_attention_heads = 8, get_head_size = 64, get_num_kv_heads = 8,
       get_sliding_window = None, config_dtype = float16 \<rparr>"
  have a: "which_attn_to_use (Some ''IPEX'') (8, 0) (get_num_attention_heads ?mc) (get_head_size ?mc)
             (get_num_kv_heads ?mc) (get_sliding_window ?mc) (config_dtype ?mc) = Inr IPEX"
    by (simp add: which_attn_to_use_def backend_name_to_enum_def backend_members_def)
  have b: "which_attn_to_use None (8, 0) (get_num_attention_heads ?mc) (get_head_size ?mc)
             (get_num_kv_heads ?mc) (get_sliding_window ?mc) (config_dtype ?mc) = Inr FLASH_ATTN"
    by (simp add: which_attn_to_use_def)
  show ?thesis
    using resolve_unregistered [OF a] resolve_unregistered [OF b] by simp
qed

text \<open>
  The XFORMERS branch is a bare \<open>pass\<close>: control falls off the end of the function,
  which then returns \<open>None\<close> where its sibling branches return a class or raise.
\<close>

lemma from_engine_xformers:
  "from_engine None (7, 5)
     \<lparr> get_num_attention_heads = 8, get_head_size = 64, get_num_kv_heads = 8,
       get_sliding_window = None, config_dtype = float16 \<rparr> = Inr None"
  by (simp add: from_engine_def which_attn_to_use_def)

section \<open>Constructing the implementation\<close>

text \<open>
  C4. Whenever \<open>num_heads % num_kv_heads == 0\<close> holds (the remainder exists, so the
  divisor is not zero, and it is zero), the constructor either succeeds or fails with
  one of three \<open>ValueError\<close>s: the block-sparse one, the sliding-window one (both the
  spec's UnsupportedFeature) or the head-size one (the spec's UnsupportedHeadSize). No
  other exception is raised.
\<close>

theorem construct_errors:
  assumes "py_mod num_heads num_kv_heads = Inr 0"
  shows "(\<exists>self. EncodeOnlyFlashAttentionImpl_init num_heads head_size scale num_kv_heads
            alibi_slopes sliding_window blocksparse_params logits_soft_cap = Inr self) \<or>
         EncodeOnlyFlashAttentionImpl_init num_heads head_size scale num_kv_heads
            alibi_slopes sliding_window blocksparse_params logits_soft_cap \<in>
           {Inl (ValueError ''FlashAttention does not support block-sparse attention.''),
            Inl (ValueError ''Sliding window is not supported in FlashAttention.''),
            Inl (ValueError (head_size_message head_size))}"
  using assms by (simp add: EncodeOnlyFlashAttentionImpl_init_def)

theorem construct_errors_witness:
  "EncodeOnlyFlashAttentionImpl_init 8 64 (Finite (1 / 8)) 8 None None (None :: unit option) None =
     Inr \<lparr> self_num_heads = 8, self_head_size = 64, self_scale = Finite (1 / 8),
           self_num_kv_heads = 8, self_alibi_slopes = None, self_sliding_window = (- 1, - 1),
           self_logits_soft_cap = PyInt 0, self_num_queries_per_kv = 1 \<rparr> \<and>
   EncodeOnlyFlashAttentionImpl_init 8 64 (Finite (1 / 8)) 8 None (Some 128) (None :: unit option) None =
     Inl (ValueError ''Sliding window is not supported in FlashAttention.'')"
proof -
  have d: "py_mod 8 8 = Inr 0" by (simp add: py_mod_def)
  have "EncodeOnlyFlashAttentionImpl_init 8 64 (Finite (1 / 8)) 8 None None (None :: unit option) None =
     Inr \<lparr> self_num_heads = 8, self_head_size = 64, self_scale = Finite (1 / 8),
           self_num_kv_heads = 8, self_alibi_slopes = None, self_sliding_window = (- 1, - 1),
           self_logits_soft_cap = PyInt 0, self_num_queries_per_kv = 1 \<rparr>"
    using construct_errors [OF d, of 64 "Finite (1 / 8)" None None "None :: unit option" None]
    by (simp add: EncodeOnlyFlashAttentionImpl_init_def py_mod_def get_supported_head_sizes_def)
  moreover
  have "EncodeOnlyFlashAttentionImpl_init 8 64 (Finite (1 / 8)) 8 None (Some 128) (None :: unit option) None =
     Inl (ValueError ''Sliding window is not supported in FlashAttention.'')"
    using construct_errors [OF d, of 64 "Finite (1 / 8)" None "Some 128" "None :: unit option" None]
    by (simp add: EncodeOnlyFlashAttentionImpl_init_def py_mod_def)
  ultimately show ?thesis by simp
qed

text \<open>Without that hypothesis the assertion line itself can raise.\<close>

lemma construct_zero_kv_heads:
  "EncodeOnlyFlashAttentionImpl_init num_heads head_size scale 0 alibi_slopes sliding_window
     None logits_soft_cap = Inl ZeroDivisionError"
  by (simp add: EncodeOnlyFlashAttentionImpl_init_def py_mod_def)

text \<open>
  C5. A construction input is a LayerAttentionConfig, whose invariant
  \<open>num_heads % num_kv_heads == 0\<close> the constructor asserts before it looks at the head
  size. For every such input with no block-sparse parameter and no sliding window, the
  constructor fails with the head-size \<open>ValueError\<close> (the spec's UnsupportedHeadSize)
  if the head size is not in the supported set {32, 64, 96, 128, 160, 192, 224, 256}
  and succeeds if it is; the message of the error contains the decimal text of the
  head size and the printed list of supported sizes.
\<close>

theorem head_size_check:
  assumes "py_mod num_heads num_kv_heads = Inr 0"
  shows "(head_size \<notin> set get_supported_head_sizes \<longrightarrow>
            EncodeOnlyFlashAttentionImpl_init num_heads head_size scale num_kv_heads
              alibi_slopes None None logits_soft_cap =
            Inl (ValueError (head_size_message head_size))) \<and>
         (head_size \<in> set get_supported_head_sizes \<longrightarrow>
            (\<exists>self. EncodeOnlyFlashAttentionImpl_init num_heads head_size scale num_kv_heads
              alibi_slopes None None logits_soft_cap = Inr self)) \<and>
         sublist (str_int head_size) (head_size_message head_size) \<and>
         sublist (str_int_list get_supported_head_sizes) (head_size_message head_size) \<and>
         set get_supported_head_sizes = {32, 64, 96, 128, 160, 192, 224, 256}"
proof (intro conjI)
  show "sublist (str_int head_size) (head_size_message head_size)"
    by (rule head_size_message_names_size)
  show "sublist (str_int_list get_supported_head_sizes) (head_size_message head_size)"
    by (rule head_size_message_names_set)
  show "set get_supported_head_sizes = {32, 64, 96, 128, 160, 192, 224, 256}"
    by (simp add: get_supported_head_sizes_def)
qed (use assms in \<open>simp_all add: EncodeOnlyFlashAttentionImpl_init_def\<close>)

theorem head_size_check_witness:
  "EncodeOnlyFlashAttentionImpl_init 8 48 (Finite (1 / 8)) 8 None None (None :: unit option) None =
     Inl (ValueError ''Head size 48 is not supported by FlashAttention. Supported head sizes are: [32, 64, 96, 128, 160, 192, 224, 256].'') \<and>
   EncodeOnlyFlashAttentionImpl_init 8 64 (Finite (1 / 8)) 8 None None (None :: unit option) None =
     Inr \<lparr> self_num_heads = 8, self_head_size = 64, self_scale = Finite (1 / 8),
           self_num_kv_heads = 8, self_alibi_slopes = None, self_sliding_window = (- 1, - 1),
           self_logits_soft_cap = PyInt 0, self_num_queries_per_kv = 1 \<rparr> \<and>
   sublist ''48'' (head_size_message 48)"
proof -
  have d: "py_mod 8 8 = Inr 0" by (simp add: py_mod_def)
  have m: "head_size_message 48 = ''Head size 48 is not supported by FlashAttention. Supported head sizes are: [32, 64, 96, 128, 160, 192, 224, 256].''"
    by code_simp
  have s: "str_int 48 = ''48''" by code_simp
  have n: "(48 :: int) \<notin> set get_supported_head_sizes"
    by (simp add: get_supported_head_sizes_def)
  have "EncodeOnlyFlashAttentionImpl_init 8 48 (Finite (1 / 8)) 8 None None (None :: unit option) None =
     Inl (ValueError (head_size_message 48)) \<and> sublist (str_int 48) (head_size_message 48)"
    using head_size_check [OF d, of 48 "Finite (1 / 8)" None None] n by blast
  moreover
  have "EncodeOnlyFlashAttentionImpl_init 8 64 (Finite (1 / 8)) 8 None None (None :: unit option) None =
     Inr \<lparr> self_num_heads = 8, self_head_size = 64, self_scale = Finite (1 / 8),
           self_num_kv_heads = 8, self_alibi_slopes = None, self_sliding_window = (- 1, - 1),
           self_logits_soft_cap = PyInt 0, self_num_queries_per_kv = 1 \<rparr>"
    using head_size_check [OF d, of 64 "Finite (1 / 8)" None None]
    by (simp add: EncodeOnlyFlashAttentionImpl_init_def py_mod_def get_supported_head_sizes_def)
  ultimately show ?thesis unfolding m s by simp
qed

text \<open>
  Outside the invariant the assertion on the head counts comes first: 7 query heads and
  2 key-value heads fail there, whatever the head size is.
\<close>

lemma construct_assertion_first:
  "(48 :: int) \<notin> set get_supported_head_sizes \<and>
   EncodeOnlyFlashAttentionImpl_init 7 48 (Finite 1) 2 None None (None :: unit option) None =
     Inl (AssertionError [])"
  by (simp add: EncodeOnlyFlashAttentionImpl_init_def py_mod_def get_supported_head_sizes_def)

section \<open>The forward pass\<close>

text \<open>
  C6. A forward call whose attention type is not ENCODER fails with
  \<open>NotImplementedError\<close> (the spec's UnsupportedMode), whatever the implementation,
  the tensors, the metadata and the scales are.
\<close>

theorem forward_mode_check:
  assumes "attn_type \<noteq> ENCODER"
  shows "forward T self query key val md k_scale v_scale attn_type =
           Inl (NotImplementedError
             ''Decoder self-attention and encoder/decoder cross-attention are not implemented for EncodeOnlyFlashAttentionImpl'')"
  using assms by (simp add: forward_def forward_kernel_call_def)

theorem forward_mode_check_witness:
  "forward shape_ops
     \<lparr> self_num_heads = 8, self_head_size = 64, self_scale = Finite (1 / 8),
       self_num_kv_heads = 8, self_alibi_slopes = None, self_sliding_window = (- 1, - 1),
       self_logits_soft_cap = PyInt 0, self_num_queries_per_kv = 1 \<rparr>
     [10, 512] [10, 512] [10, 512] (build [3, 5, 2]) (Finite 1) (Finite 1) DECODER_SELF =
   Inl (NotImplementedError
     ''Decoder self-attention and encoder/decoder cross-attention are not implemented for EncodeOnlyFlashAttentionImpl'')"
proof -
  have m: "DECODER_SELF \<noteq> ENCODER" by simp
  show ?thesis by (rule forward_mode_check [OF m])
qed

text \<open>
  C7. A forward call takes packed tensors: two-dimensional buffers that the
  implementation reshapes to one row per token and head. In ENCODER mode, if
  \<open>k_scale\<close> or \<open>v_scale\<close> differs from 1.0 the call fails with the
  \<open>AssertionError\<close> of the scale check (the spec's UnsupportedQuantization). With both
  scales equal to 1.0 the check passes: the call does not fail with that error, and
  with the shape of the query unpacked into its two entries and the three tensors
  reshaped, the kernel is invoked, with \<open>causal\<close> false and the attributes of the
  implementation as its arguments, and its output is reshaped to the shape of the
  query.
\<close>

theorem forward_scale_check:
  assumes "attn_type = ENCODER"
  shows "(k_scale \<noteq> Finite 1 \<or> v_scale \<noteq> Finite 1 \<longrightarrow>
            forward T self query key val md k_scale v_scale attn_type =
              Inl (AssertionError ''key/v_scale is not supported in FlashAttention.'')) \<and>
         (k_scale = Finite 1 \<and> v_scale = Finite 1 \<longrightarrow>
            forward_kernel_call T self query key val md k_scale v_scale attn_type \<noteq>
              Inl (AssertionError ''key/v_scale is not supported in FlashAttention.'') \<and>
            (\<forall>num_tokens hidden_size q k v.
               tensor_shape T query = [num_tokens, hidden_size] \<and>
               tensor_view T query [- 1, self_num_heads self, self_head_size self] = Some q \<and>
               tensor_view T key [- 1, self_num_kv_heads self, self_head_size self] = Some k \<and>
               tensor_view T val [- 1, self_num_kv_heads self, self_head_size self] = Some v
               \<longrightarrow>
               forward_kernel_call T self query key val md k_scale v_scale attn_type =
                 Inr (num_tokens, hidden_size,
                      \<lparr> arg_q = q, arg_k = k, arg_v = v,
                        cu_seqlens_q = seq_start_loc md, cu_seqlens_k = seq_start_loc md,
                        max_seqlen_q = max_seq_len md, max_seqlen_k = max_seq_len md,
                        softmax_scale = self_scale self, causal = False,
                        window_size = self_sliding_window self,
                        alibi_slopes_arg = self_alibi_slopes self,
                        softcap = self_logits_soft_cap self \<rparr>) \<and>
               forward T self query key val md k_scale v_scale attn_type =
                 (case flash_attn_varlen_func T
                      \<lparr> arg_q = q, arg_k = k, arg_v = v,
                        cu_seqlens_q = seq_start_loc md, cu_seqlens_k = seq_start_loc md,
                        max_seqlen_q = max_seq_len md, max_seqlen_k = max_seq_len md,
                        softmax_scale = self_scale self, causal = False,
                        window_size = self_sliding_window self,
                        alibi_slopes_arg = self_alibi_slopes self,
                        softcap = self_logits_soft_cap self \<rparr> of
                    None \<Rightarrow> Inl TorchError
                  | Some attn_output \<Rightarrow>
                      (case tensor_view T attn_output [num_tokens, hidden_size] of
                         None \<Rightarrow> Inl TorchError | Some out \<Rightarrow> Inr out))))"
proof (intro conjI impI allI)
  assume "k_scale \<noteq> Finite 1 \<or> v_scale \<noteq> Finite 1"
  with assms show "forward T self query key val md k_scale v_scale attn_type =
      Inl (AssertionError ''key/v_scale is not supported in FlashAttention.'')"
    by (auto simp: forward_def forward_kernel_call_def py_float_eq_one)
next
  assume "k_scale = Finite 1 \<and> v_scale = Finite 1"
  with assms show "forward_kernel_call T self query key val md k_scale v_scale attn_type \<noteq>
      Inl (AssertionError ''key/v_scale is not supported in FlashAttention.'')"
    by (simp add: forward_kernel_call_def py_float_eq_one split: list.split option.split)
next
  fix num_tokens hidden_size q k v
  assume s: "k_scale = Finite 1 \<and> v_scale = Finite 1"
    and r: "tensor_shape T query = [num_tokens, hidden_size] \<and>
       tensor_view T query [- 1, self_num_heads self, self_head_size self] = Some q \<and>
       tensor_view T key [- 1, self_num_kv_heads self, self_head_size self] = Some k \<and>
       tensor_view T val [- 1, self_num_kv_heads self, self_head_size self] = Some v"
  from assms s r show c: "forward_kernel_call T self query key val md k_scale v_scale attn_type =
     Inr (num_tokens, hidden_size,
          \<lparr> arg_q = q, arg_k = k, arg_v = v,
            cu_seqlens_q = seq_start_loc md, cu_seqlens_k = seq_start_loc md,
            max_seqlen_q = max_seq_len md, max_seqlen_k = max_seq_len md,
            softmax_scale = self_scale self, causal = False,
            window_size = self_sliding_window self,
            alibi_slopes_arg = self_alibi_slopes self,
            softcap = self_logits_soft_cap self \<rparr>)"
    by (simp add: forward_kernel_call_def py_float_eq_one)
  show "forward T self query key val md k_scale v_scale attn_type =
                 (case flash_attn_varlen_func T
                      \<lparr> arg_q = q, arg_k = k, arg_v = v,
                        cu_seqlens_q = seq_start_loc md, cu_seqlens_k = seq_start_loc md,
                        max_seqlen_q = max_seq_len md, max_seqlen_k = max_seq_len md,
                        softmax_scale = self_scale self, causal = False,
                        window_size = self_sliding_window self,
                        alibi_slopes_arg = self_alibi_slopes self,
                        softcap = self_logits_soft_cap self \<rparr> of
                    None \<Rightarrow> Inl TorchError
                  | Some attn_output \<Rightarrow>
                      (case tensor_view T attn_output [num_tokens, hidden_size] of
                         None \<Rightarrow> Inl TorchError | Some out \<Rightarrow> Inr out))"
    unfolding forward_def c by simp
qed

theorem forward_scale_check_witness:
  "forward shape_ops
     \<lparr> self_num_heads = 8, self_head_size = 64, self_scale = Finite (1 / 8),
       self_num_kv_heads = 8, self_alibi_slopes = None, self_sliding_window = (- 1, - 1),
       self_logits_soft_cap = PyInt 0, self_num_queries_per_kv = 1 \<rparr>
     [10, 512] [10, 512] [10, 512] (build [3, 5, 2]) (Finite 2) (Finite 1) ENCODER =
     Inl (AssertionError ''key/v_scale is not supported in FlashAttention.'') \<and>
   forward shape_ops
     \<lparr> self_num_heads = 8, self_head_size = 64, self_scale = Finite (1 / 8),
       self_num_kv_heads = 8, self_alibi_slopes = None, self_sliding_window = (- 1, - 1),
       self_logits_soft_cap = PyInt 0, self_num_queries_per_kv = 1 \<rparr>
     [10, 512] [10, 512] [10, 512] (build [3, 5, 2]) (Finite 1) NaN ENCODER =
     Inl (AssertionError ''key/v_scale is not supported in FlashAttention.'') \<and>
   forward_kernel_call shape_ops
     \<lparr> self_num_heads = 8, self_head_size = 64, self_scale = Finite (1 / 8),
       self_num_kv_heads = 8, self_alibi_slopes = None, self_sliding_window = (- 1, - 1),
       self_logits_soft_cap = PyInt 0, self_num_queries_per_kv = 1 \<rparr>
     [10, 512] [10, 512] [10, 512] (build [3, 5, 2]) (Finite 1) (Finite 1) ENCODER =
     Inr (10, 512,
          \<lparr> arg_q = [10, 8, 64], arg_k = [10, 8, 64], arg_v = [10, 8, 64],
            cu_seqlens_q = [0, 3, 8, 10], cu_seqlens_k = [0, 3, 8, 10],
            max_seqlen_q = 5, max_seqlen_k = 5,
            softmax_scale = Finite (1 / 8), causal = False, window_size = (- 1, - 1),
            alibi_slopes_arg = None, softcap = PyInt 0 \<rparr>) \<and>
   forward shape_ops
     \<lparr> self_num_heads = 8, self_head_size = 64, self_scale = Finite (1 / 8),
       self_num_kv_heads = 8, self_alibi_slopes = None, self_sliding_window = (- 1, - 1),
       self_logits_soft_cap = PyInt 0, self_num_queries_per_kv = 1 \<rparr>
     [10, 512] [10, 512] [10, 512] (build [3, 5, 2]) (Finite 1) (Finite 1) ENCODER =
     Inr [10, 512]"
proof -
  let ?self = "\<lparr> self_num_heads = 8, self_head_size = 64, self_scale = Finite (1 / 8),
       self_num_kv_heads = 8, self_alibi_slopes = None, self_sliding_window = (- 1, - 1),
       self_logits_soft_cap = PyInt 0, self_num_queries_per_kv = 1 \<rparr>"
  let ?md = "build [3, 5, 2]"
  have e: "ENCODER = ENCODER" by simp
  have v: "shape_view [10, 512] [- 1, 8, 64] = Some [10, 8, 64]"
    "shape_view [10, 8, 64] [10, 512] = Some [10, 512]"
    by (simp_all add: shape_view_def numel_def)
  have b: "seq_start_loc ?md = [0, 3, 8, 10]" "max_seq_len ?md = 5"
    by (simp_all add: build_def max_of_def)
  have r: "tensor_shape shape_ops [10, 512] = [10, 512] \<and>
       tensor_view shape_ops [10, 512] [- 1, self_num_heads ?self, self_head_size ?self] = Some [10, 8, 64] \<and>
       tensor_view shape_ops [10, 512] [- 1, self_num_kv_heads ?self, self_head_size ?self] = Some [10, 8, 64] \<and>
       tensor_view shape_ops [10, 512] [- 1, self_num_kv_heads ?self, self_head_size ?self] = Some [10, 8, 64]"
    by (simp add: shape_ops_def v)
  have f1: "forward shape_ops ?self [10, 512] [10, 512] [10, 512] ?md (Finite 2) (Finite 1) ENCODER =
     Inl (AssertionError ''key/v_scale is not supported in FlashAttention.'')"
    using forward_scale_check [OF e, THEN conjunct1, of "Finite 2" "Finite 1" shape_ops ?self
            "[10, 512]" "[10, 512]" "[10, 512]" ?md] by simp
  have f2: "forward shape_ops ?self [10, 512] [10, 512] [10, 512] ?md (Finite 1) NaN ENCODER =
     Inl (AssertionError ''key/v_scale is not supported in FlashAttention.'')"
    using forward_scale_check [OF e, THEN conjunct1, of "Finite 1" NaN shape_ops ?self
            "[10, 512]" "[10, 512]" "[10, 512]" ?md] by simp
  from forward_scale_check [OF e, of "Finite 1" "Finite 1" shape_ops ?self "[10, 512]" "[10, 512]" "[10, 512]" ?md]
  have g: "tensor_shape shape_ops [10, 512] = [10, 512] \<and>
       tensor_view shape_ops [10, 512] [- 1, self_num_heads ?self, self_head_size ?self] = Some [10, 8, 64] \<and>
       tensor_view shape_ops [10, 512] [- 1, self_num_kv_heads ?self, self_head_size ?self] = Some [10, 8, 64] \<and>
       tensor_view shape_ops [10, 512] [- 1, self_num_kv_heads ?self, self_head_size ?self] = Some [10, 8, 64]
       \<longrightarrow>
       forward_kernel_call shape_ops ?self [10, 512] [10, 512] [10, 512] ?md (Finite 1) (Finite 1) ENCODER =
                 Inr (10, 512,
                      \<lparr> arg_q = [10, 8, 64], arg_k = [10, 8, 64], arg_v = [10, 8, 64],
                        cu_seqlens_q = seq_start_loc ?md, cu_seqlens_k = seq_start_loc ?md,
                        max_seqlen_q = max_seq_len ?md, max_seqlen_k = max_seq_len ?md,
                        softmax_scale = self_scale ?self, causal = False,
                        window_size = self_sliding_window ?self,
                        alibi_slopes_arg = self_alibi_slopes ?self,
                        softcap = self_logits_soft_cap ?self \<rparr>) \<and>
               forward shape_ops ?self [10, 512] [10, 512] [10, 512] ?md (Finite 1) (Finite 1) ENCODER =
                 (case flash_attn_varlen_func shape_ops
                      \<lparr> arg_q = [10, 8, 64], arg_k = [10, 8, 64], arg_v = [10, 8, 64],
                        cu_seqlens_q = seq_start_loc ?md, cu_seqlens_k = seq_start_loc ?md,
                        max_seqlen_q = max_seq_len ?md, max_seqlen_k = max_seq_len ?md,
                        softmax_scale = self_scale ?self, causal = False,
                        window_size = self_sliding_window ?self,
                        alibi_slopes_arg = self_alibi_slopes ?self,
                        softcap = self_logits_soft_cap ?self \<rparr> of
                    None \<Rightarrow> Inl TorchError
                  | Some attn_output \<Rightarrow>
                      (case tensor_view shape_ops attn_output [10, 512] of
                         None \<Rightarrow> Inl TorchError | Some out \<Rightarrow> Inr out))"
    by blast
  from g r have f3: "forward_kernel_call shape_ops ?self [10, 512] [10, 512] [10, 512] ?md (Finite 1) (Finite 1) ENCODER =
                 Inr (10, 512,
                      \<lparr> arg_q = [10, 8, 64], arg_k = [10, 8, 64], arg_v = [10, 8, 64],
                        cu_seqlens_q = [0, 3, 8, 10], cu_seqlens_k = [0, 3, 8, 10],
            max_seqlen_q = 5, max_seqlen_k = 5,
            softmax_scale = Finite (1 / 8), causal = False, window_size = (- 1, - 1),
            alibi_slopes_arg = None, softcap = PyInt 0 \<rparr>)"
    by (simp add: b)
  from g r have f4: "forward shape_ops ?self [10, 512] [10, 512] [10, 512] ?md (Finite 1) (Finite 1) ENCODER
      = Inr [10, 512]"
    by (simp add: shape_ops_def v)
  from f1 f2 f3 f4 show ?thesis by blast
qed

text \<open>
  In the concrete tensor library every call on packed tensors of the documented
  shapes, \<open>[num_tokens, num_heads * head_size]\<close> for the query and
  \<open>[num_tokens, num_kv_heads * head_size]\<close> for the key and the value, reaches the
  kernel when the head counts and the head size are positive.
\<close>

lemma shape_view_packed:
  assumes "0 < h" and "0 < d"
  shows "shape_view [n, h * d] [- 1, h, d] = Some [n, h, d]"
proof -
  from assms have p: "0 < h * d" by simp
  from assms have q: "n * (h * d) div (h * d) = n" by simp
  have m: "n * (h * d) mod (h * d) = 0" by simp
  from assms have l: "list_all ((\<le>) 0) [h, d]" by simp
  show ?thesis
    unfolding shape_view_def numel_def using p q m l by (simp add: Let_def)
qed

lemma forward_packed_reaches_kernel:
  assumes "0 < self_num_heads self" and "0 < self_num_kv_heads self"
      and "0 < self_head_size self"
  shows "forward_kernel_call shape_ops self
           [num_tokens, self_num_heads self * self_head_size self]
           [num_tokens, self_num_kv_heads self * self_head_size self]
           [num_tokens, self_num_kv_heads self * self_head_size self]
           md (Finite 1) (Finite 1) ENCODER =
         Inr (num_tokens, self_num_heads self * self_head_size self,
              \<lparr> arg_q = [num_tokens, self_num_heads self, self_head_size self],
                arg_k = [num_tokens, self_num_kv_heads self, self_head_size self],
                arg_v = [num_tokens, self_num_kv_heads self, self_head_size self],
                cu_seqlens_q = seq_start_loc md, cu_seqlens_k = seq_start_loc md,
                max_seqlen_q = max_seq_len md, max_seqlen_k = max_seq_len md,
                softmax_scale = self_scale self, causal = False,
                window_size = self_sliding_window self,
                alibi_slopes_arg = self_alibi_slopes self,
                softcap = self_logits_soft_cap self \<rparr>)"
  using assms
  by (simp add: forward_kernel_call_def shape_ops_def shape_view_packed py_float_eq_def)

text \<open>
  A query that is not two-dimensional is no packed tensor: unpacking its shape into
  two names raises before any reshape.
\<close>

lemma forward_one_dimensional_query:
  "forward_kernel_call shape_ops
     \<lparr> self_num_heads = 8, self_head_size = 64, self_scale = Finite (1 / 8),
       self_num_kv_heads = 8, self_alibi_slopes = None, self_sliding_window = (- 1, - 1),
       self_logits_soft_cap = PyInt 0, self_num_queries_per_kv = 1 \<rparr>
     [5120] [5120] [5120] (build [3, 5, 2]) (Finite 1) (Finite 1) ENCODER =
   Inl (ValueError ''not enough values to unpack'')"
  by (simp add: forward_kernel_call_def shape_ops_def py_float_eq_def)



section \<open>The metadata builder\<close>

text \<open>
  C9. For every sequence of lengths, \<open>build\<close> returns one more offset than there are
  lengths, the offset at position \<open>i\<close> is the sum of the first \<open>i\<close> lengths (so the
  first is 0), and the maximum length is the greatest of the lengths, or 0 when there
  are none. The lengths 3, 5, 2 give the offsets 0, 3, 8, 10 and the maximum 5; no
  lengths give the single offset 0 and the maximum 0.
\<close>

theorem build_offsets:
  "length (seq_start_loc (build ns)) = length ns + 1 \<and>
   (\<forall>i \<le> length ns. seq_start_loc (build ns) ! i = sum_list (take i ns)) \<and>
   max_seq_len (build ns) = (if ns = [] then 0 else Max (set ns)) \<and>
   build [3, 5, 2] = \<lparr> seq_start_loc = [0, 3, 8, 10], max_seq_len = 5 \<rparr> \<and>
   build [] = \<lparr> seq_start_loc = [0], max_seq_len = 0 \<rparr>"
proof (intro conjI allI impI)
  show "length (seq_start_loc (build ns)) = length ns + 1"
    by (simp add: build_def length_offsets_from)
next
  fix i assume "i \<le> length ns"
  then show "seq_start_loc (build ns) ! i = sum_list (take i ns)"
    by (simp add: build_def offsets_from_nth)
next
  show "max_seq_len (build ns) = (if ns = [] then 0 else Max (set ns))"
    by (simp add: build_def max_of_Max) (simp add: max_of_def)
next
  show "build [3, 5, 2] = \<lparr> seq_start_loc = [0, 3, 8, 10], max_seq_len = 5 \<rparr>"
    by (simp add: build_def max_of_def)
next
  show "build [] = \<lparr> seq_start_loc = [0], max_seq_len = 0 \<rparr>"
    by (simp add: build_def max_of_def)
qed

theorem build_offsets_witness:
  "seq_start_loc (build [4, 1, 7]) ! 2 = 5 \<and> max_seq_len (build [4, 1, 7]) = 7 \<and>
   length (seq_start_loc (build [4, 1, 7])) = 4"
proof -
  have i: "(2 :: nat) \<le> length [4, 1, 7 :: int]" by simp
  from build_offsets [of "[4, 1, 7]"]
  have "seq_start_loc (build [4, 1, 7]) ! 2 = sum_list (take 2 [4, 1, 7])"
    and "max_seq_len (build [4, 1, 7]) = (if [4, 1, 7 :: int] = [] then 0 else Max (set [4, 1, 7]))"
    and "length (seq_start_loc (build [4, 1, 7])) = length [4, 1, 7 :: int] + 1"
    using i by blast+
  then show ?thesis by (simp add: numeral_2_eq_2)
qed

end
